theory Spec2Isabelle
  imports Complex_Main "HOL-Library.Sublist" "HOL-Library.List_Lexorder" "HOL-Library.Char_ord"
    "HOL-Library.AList"
begin

section \<open>Rate limiter (pg\_mcp\_server/utils/rate\_limiter.py)\<close>

text \<open>
  \<^verbatim>\<open>RateLimitConfig\<close> is a dataclass of two Python ints and a flag; nothing validates
  the ints. \<^verbatim>\<open>RequestRecord\<close> holds one list of timestamps. The limiter keeps a
  \<^verbatim>\<open>defaultdict\<close> from keys to records: a map, where indexing a missing key creates
  the empty record and \<^verbatim>\<open>.get\<close> does not. \<^verbatim>\<open>time.time()\<close> is read once per call; the
  value read is an argument of the model and timestamps are real numbers.
\<close>

record rate_limit_config =
  max_requests :: int
  time_window :: int
  enabled :: bool

record rate_limiter =
  config :: rate_limit_config
  records :: "string \<rightharpoonup> real list"

datatype limit_message =
  Exceeded_empty int int
  | Exceeded nat int int int

record usage =
  current_requests :: int
  usage_max_requests :: int
  usage_time_window :: int
  remaining_requests :: int

definition new_rate_limiter :: "rate_limit_config \<Rightarrow> rate_limiter" where
  "new_rate_limiter c = \<lparr>config = c, records = Map.empty\<rparr>"

text \<open>Python's \<^verbatim>\<open>int(x)\<close> on a float truncates towards zero.\<close>

definition py_int :: "real \<Rightarrow> int" where
  "py_int x = (if 0 \<le> x then \<lfloor>x\<rfloor> else \<lceil>x\<rceil>)"

text \<open>\<^verbatim>\<open>self.records[key]\<close> on the defaultdict: the stored list, or a fresh empty one.\<close>

definition record_of :: "rate_limiter \<Rightarrow> string \<Rightarrow> real list" where
  "record_of s key = (case records s key of None \<Rightarrow> [] | Some ts \<Rightarrow> ts)"

definition check_rate_limit ::
  "rate_limiter \<Rightarrow> real \<Rightarrow> string \<Rightarrow> (bool \<times> limit_message option) \<times> rate_limiter" where
  "check_rate_limit s current_time key =
     (if \<not> enabled (config s) then ((True, None), s)
      else
        let cutoff_time = current_time - real_of_int (time_window (config s));
            timestamps = filter (\<lambda>ts. ts > cutoff_time) (record_of s key)
        in if int (length timestamps) \<ge> max_requests (config s) then
             (if timestamps = [] then
                ((False, Some (Exceeded_empty (max_requests (config s)) (time_window (config s)))),
                 s\<lparr>records := (records s)(key \<mapsto> timestamps)\<rparr>)
              else
                let oldest_timestamp = Min (set timestamps);
                    wait_time = py_int (oldest_timestamp + real_of_int (time_window (config s))
                                        - current_time)
                in ((False, Some (Exceeded (length timestamps) (max_requests (config s))
                                    (time_window (config s)) wait_time)),
                    s\<lparr>records := (records s)(key \<mapsto> timestamps)\<rparr>))
           else ((True, None), s\<lparr>records := (records s)(key \<mapsto> timestamps @ [current_time])\<rparr>))"

text \<open>
  \<^verbatim>\<open>get_current_usage\<close> reads the clock and the record through \<^verbatim>\<open>.get\<close>; the second
  component is the limiter as the call leaves it.
\<close>

definition get_current_usage :: "rate_limiter \<Rightarrow> real \<Rightarrow> string \<Rightarrow> usage \<times> rate_limiter" where
  "get_current_usage s current_time key =
     (case records s key of
        None \<Rightarrow>
          (\<lparr>current_requests = 0, usage_max_requests = max_requests (config s),
            usage_time_window = time_window (config s),
            remaining_requests = max_requests (config s)\<rparr>, s)
      | Some ts \<Rightarrow>
          let cutoff_time = current_time - real_of_int (time_window (config s));
              valid_requests = int (length (filter (\<lambda>t. t > cutoff_time) ts))
          in (\<lparr>current_requests = valid_requests, usage_max_requests = max_requests (config s),
               usage_time_window = time_window (config s),
               remaining_requests = max 0 (max_requests (config s) - valid_requests)\<rparr>, s))"

text \<open>\<^verbatim>\<open>reset\<close>: a non-empty key deletes that record, \<^verbatim>\<open>None\<close> or \<^verbatim>\<open>""\<close> clears all.\<close>

definition reset :: "rate_limiter \<Rightarrow> string option \<Rightarrow> rate_limiter" where
  "reset s key =
     (case key of
        Some k \<Rightarrow> (if k \<noteq> [] then s\<lparr>records := (records s)(k := None)\<rparr>
                   else s\<lparr>records := Map.empty\<rparr>)
      | None \<Rightarrow> s\<lparr>records := Map.empty\<rparr>)"

text \<open>A history of calls on one limiter, each with the clock value it read.\<close>

datatype limiter_call =
  Check real string
  | Usage real string
  | Reset "string option"

fun limiter_step :: "rate_limiter \<Rightarrow> limiter_call \<Rightarrow> rate_limiter" where
  "limiter_step s (Check t k) = snd (check_rate_limit s t k)"
| "limiter_step s (Usage t k) = snd (get_current_usage s t k)"
| "limiter_step s (Reset k) = reset s k"

definition limiter_run :: "rate_limiter \<Rightarrow> limiter_call list \<Rightarrow> rate_limiter" where
  "limiter_run s calls = foldl limiter_step s calls"

text \<open>Timestamps of a key within the closed window \<open>[now - W, now]\<close>, as the spec counts them,
  and within the half-open window \<open>(now - W, now]\<close>, as the code prunes them.\<close>

definition closed_window_count :: "rate_limiter \<Rightarrow> real \<Rightarrow> string \<Rightarrow> nat" where
  "closed_window_count s now key =
     length (filter (\<lambda>ts. now - real_of_int (time_window (config s)) \<le> ts \<and> ts \<le> now)
               (record_of s key))"

definition open_window_count :: "rate_limiter \<Rightarrow> real \<Rightarrow> string \<Rightarrow> nat" where
  "open_window_count s now key =
     length (filter (\<lambda>ts. ts > now - real_of_int (time_window (config s))) (record_of s key))"

definition record_bounded :: "rate_limiter \<Rightarrow> bool" where
  "record_bounded s = (\<forall>k. int (length (record_of s k)) \<le> max_requests (config s))"


section \<open>Parsed SQL (the sqlglot expression tree)\<close>

text \<open>
  The parser and the SQL generator belong to the sqlglot library, not to the repository.
  The model takes both as arguments: \<open>parse_one\<close> yields a tree or raises, \<open>to_sql\<close>
  renders a tree (\<^verbatim>\<open>parsed.sql(dialect="postgres", pretty=True)\<close>) or raises. Every
  exception below is a subclass of Python's \<^verbatim>\<open>Exception\<close>.
\<close>

datatype py_error =
  ParseError string
  | RuntimeError string
  | PermissionError string
  | PostgresConnectionError string
  | InterfaceError string
  | PostgresError string
  | OtherException string

fun error_text :: "py_error \<Rightarrow> string" where
  "error_text (ParseError m) = m"
| "error_text (RuntimeError m) = m"
| "error_text (PermissionError m) = m"
| "error_text (PostgresConnectionError m) = m"
| "error_text (InterfaceError m) = m"
| "error_text (PostgresError m) = m"
| "error_text (OtherException m) = m"

text \<open>
  A node has a class and its \<^verbatim>\<open>args\<close>, an insertion-ordered dict from argument names to
  child nodes (a list-valued argument repeats its name). The text properties the
  repository reads are kept in the class: \<open>Table catalog db name\<close> for a reference
  written \<^verbatim>\<open>catalog.db.name\<close> (empty text for a missing part), \<open>Column table name\<close>,
  \<open>Anonymous name quoted\<close> for a call of a function sqlglot does not know, whose
  \<^verbatim>\<open>this\<close> is the name as a plain string, or a quoted identifier when the name was
  written in double quotes, and \<open>Func class_name sql_name\<close> for a function it knows, with
  the name of its Python class and what \<^verbatim>\<open>sql_name()\<close> returns.
\<close>

datatype node_kind =
  Select | Union | Subquery | From | Join | Where | And | Or | Paren | EQ | In | Star
  | Insert | Update | Delete | Drop
  | Literal string
  | Table string string string
  | Column string string
  | Anonymous string bool
  | Func string string
  | Other string

datatype expression = Expr (kind: node_kind) (args: "(string \<times> expression) list")

fun kind_name :: "node_kind \<Rightarrow> string" where
  "kind_name Select = ''Select''"
| "kind_name Union = ''Union''"
| "kind_name Subquery = ''Subquery''"
| "kind_name From = ''From''"
| "kind_name Join = ''Join''"
| "kind_name Where = ''Where''"
| "kind_name And = ''And''"
| "kind_name Or = ''Or''"
| "kind_name Paren = ''Paren''"
| "kind_name EQ = ''EQ''"
| "kind_name In = ''In''"
| "kind_name Star = ''Star''"
| "kind_name Insert = ''Insert''"
| "kind_name Update = ''Update''"
| "kind_name Delete = ''Delete''"
| "kind_name Drop = ''Drop''"
| "kind_name (Literal v) = ''Literal''"
| "kind_name (Table c d n) = ''Table''"
| "kind_name (Column t n) = ''Column''"
| "kind_name (Anonymous n q) = ''Anonymous''"
| "kind_name (Func class_name sql_name) = class_name"
| "kind_name (Other n) = n"

fun is_select :: "expression \<Rightarrow> bool" where
  "is_select (Expr Select as) = True"
| "is_select e = False"

fun is_table :: "expression \<Rightarrow> bool" where
  "is_table (Expr (Table c d n) as) = True"
| "is_table e = False"

fun is_column :: "expression \<Rightarrow> bool" where
  "is_column (Expr (Column t n) as) = True"
| "is_column e = False"

fun is_where :: "expression \<Rightarrow> bool" where
  "is_where (Expr Where as) = True"
| "is_where e = False"

fun is_subquery :: "expression \<Rightarrow> bool" where
  "is_subquery (Expr Subquery as) = True"
| "is_subquery e = False"

fun is_func :: "expression \<Rightarrow> bool" where
  "is_func (Expr (Anonymous n q) as) = True"
| "is_func (Expr (Func class_name sql_name) as) = True"
| "is_func e = False"

fun is_connector :: "expression \<Rightarrow> bool" where
  "is_connector (Expr And as) = True"
| "is_connector (Expr Or as) = True"
| "is_connector e = False"

text \<open>\<^verbatim>\<open>Table.catalog\<close>, \<^verbatim>\<open>Table.db\<close>, \<^verbatim>\<open>Table.name\<close>, \<^verbatim>\<open>Column.table\<close>, \<^verbatim>\<open>Column.name\<close>.\<close>

fun table_node_catalog :: "expression \<Rightarrow> string" where
  "table_node_catalog (Expr (Table c d n) as) = c"
| "table_node_catalog e = []"

fun table_node_db :: "expression \<Rightarrow> string" where
  "table_node_db (Expr (Table c d n) as) = d"
| "table_node_db e = []"

fun table_node_name :: "expression \<Rightarrow> string" where
  "table_node_name (Expr (Table c d n) as) = n"
| "table_node_name e = []"

fun col_node_table :: "expression \<Rightarrow> string" where
  "col_node_table (Expr (Column t n) as) = t"
| "col_node_table e = []"

fun col_node_name :: "expression \<Rightarrow> string" where
  "col_node_name (Expr (Column t n) as) = n"
| "col_node_name e = []"

text \<open>
  \<^verbatim>\<open>find_all\<close> walks the tree breadth first (sqlglot's default), a node before its
  children and the children in the order of \<^verbatim>\<open>args\<close>. A node object is identified by
  its position: the list of child indices from the root.
\<close>

fun children ::
  "nat list \<Rightarrow> nat \<Rightarrow> (string \<times> expression) list \<Rightarrow> (nat list \<times> expression) list" where
  "children p i [] = []"
| "children p i ((k, e) # as) = (p @ [i], e) # children p (Suc i) as"

lemma children_size:
  "sum_list (map (size \<circ> snd) (children p i as)) \<le> size_list (size_prod (\<lambda>_. 0) size) as"
proof (induction as arbitrary: i)
  case Nil
  then show ?case by simp
next
  case (Cons a as)
  obtain k e where a: "a = (k, e)" by (cases a)
  show ?case using Cons [of "Suc i"] by (simp add: a)
qed

function bfs :: "(nat list \<times> expression) list \<Rightarrow> (nat list \<times> expression) list" where
  "bfs [] = []"
| "bfs ((p, Expr k as) # queue) = (p, Expr k as) # bfs (queue @ children p 0 as)"
  by pat_completeness auto
termination
  by (relation "measure (\<lambda>q. sum_list (map (size \<circ> snd) q))")
     (auto simp: children_size le_imp_less_Suc)

definition walk :: "expression \<Rightarrow> (nat list \<times> expression) list" where
  "walk e = bfs [([], e)]"

definition find_all :: "(expression \<Rightarrow> bool) \<Rightarrow> expression \<Rightarrow> (nat list \<times> expression) list" where
  "find_all is_class e = filter (\<lambda>(p, n). is_class n) (walk e)"

text \<open>Replacing the node at a position; a position outside the tree changes nothing.\<close>

fun update_at :: "nat list \<Rightarrow> (expression \<Rightarrow> expression) \<Rightarrow> expression \<Rightarrow> expression" where
  "update_at [] f e = f e"
| "update_at (i # p) f (Expr k as) =
     (if i < length as
      then Expr k (as[i := (fst (as ! i), update_at p f (snd (as ! i)))])
      else Expr k as)"

fun node_at :: "nat list \<Rightarrow> expression \<Rightarrow> expression option" where
  "node_at [] e = Some e"
| "node_at (i # p) (Expr k as) = (if i < length as then node_at p (snd (as ! i)) else None)"

text \<open>The place of an argument name in \<^verbatim>\<open>args\<close>: the index of its child.\<close>

definition arg_index :: "string \<Rightarrow> (string \<times> expression) list \<Rightarrow> nat" where
  "arg_index key as = length (takeWhile (\<lambda>kv. fst kv \<noteq> key) as)"

section \<open>Access policy (pg\_mcp\_server/models/security.py)\<close>

datatype access_level = NONE | READ | ADMIN

record table_access_rule =
  schema :: string
  table :: string
  access_level :: access_level
  allowed_columns :: "string list option"
  denied_columns :: "string list option"
  row_filter :: "string option"
  comment :: "string option"

record database_access_policy =
  database_name :: string
  default_access :: access_level
  table_rules :: "table_access_rule list"
  require_explain :: bool
  max_explain_cost :: "real option"
  blocked_tables :: "string list"

record security_validation_result =
  is_valid :: bool
  error_message :: "string option"
  res_blocked_tables :: "string list"
  res_blocked_columns :: "string list"
  rewritten_sql :: "string option"

definition get_table_access ::
  "database_access_policy \<Rightarrow> string \<Rightarrow> string \<Rightarrow> table_access_rule option" where
  "get_table_access P sch tbl = find (\<lambda>rule. schema rule = sch \<and> table rule = tbl) (table_rules P)"

definition is_table_blocked :: "database_access_policy \<Rightarrow> string \<Rightarrow> string \<Rightarrow> bool" where
  "is_table_blocked P sch tbl =
     (let table_name = sch @ ''.'' @ tbl
      in table_name \<in> set (blocked_tables P) \<or> tbl \<in> set (blocked_tables P))"

definition get_allowed_columns ::
  "database_access_policy \<Rightarrow> string \<Rightarrow> string \<Rightarrow> string list option" where
  "get_allowed_columns P sch tbl =
     (case get_table_access P sch tbl of None \<Rightarrow> None | Some rule \<Rightarrow> allowed_columns rule)"

definition get_denied_columns :: "database_access_policy \<Rightarrow> string \<Rightarrow> string \<Rightarrow> string list" where
  "get_denied_columns P sch tbl =
     (case get_table_access P sch tbl of
        None \<Rightarrow> []
      | Some rule \<Rightarrow> (case denied_columns rule of None \<Rightarrow> [] | Some cols \<Rightarrow> cols))"

definition get_row_filter :: "database_access_policy \<Rightarrow> string \<Rightarrow> string \<Rightarrow> string option" where
  "get_row_filter P sch tbl =
     (case get_table_access P sch tbl of None \<Rightarrow> None | Some rule \<Rightarrow> row_filter rule)"


section \<open>Access-control rewriter (pg\_mcp\_server/core/sql\_access\_control.py)\<close>

text \<open>\<^verbatim>\<open>", ".join(xs)\<close>.\<close>

fun join :: "string \<Rightarrow> string list \<Rightarrow> string" where
  "join sep [] = []"
| "join sep [x] = x"
| "join sep (x # y # ys) = x @ sep @ join sep (y # ys)"

text \<open>
  \<^verbatim>\<open>exp.and_(a, b)\<close>: a missing operand is dropped (with none left the call raises),
  two operands are joined, one that is itself a connector going in parentheses. The
  operands are copied, so the tree built holds new node objects.
  \<^verbatim>\<open>select.set("where", w)\<close> assigns in the \<^verbatim>\<open>args\<close> dict: an existing key keeps its
  place, a new one goes last.
\<close>

definition wrap_connector :: "expression \<Rightarrow> expression" where
  "wrap_connector e = (if is_connector e then Expr Paren [(''this'', e)] else e)"

definition exp_and :: "expression option \<Rightarrow> expression option \<Rightarrow> py_error + expression" where
  "exp_and a b =
     (case a of
        None \<Rightarrow>
          (case b of
             None \<Rightarrow> Inl (OtherException ''not enough values to unpack (expected at least 1, got 0)'')
           | Some b' \<Rightarrow> Inr b')
      | Some a' \<Rightarrow>
          (case b of
             None \<Rightarrow> Inr a'
           | Some b' \<Rightarrow>
               Inr (Expr And [(''this'', wrap_connector a'), (''expression'', wrap_connector b')])))"

definition set_arg :: "string \<Rightarrow> expression \<Rightarrow> expression \<Rightarrow> expression" where
  "set_arg key v e = Expr (kind e) (AList.update key v (args e))"

text \<open>
  \<^verbatim>\<open>exp.Where(this=c)\<close>; \<^verbatim>\<open>filter_where.this\<close> of a node without that argument is
  \<^verbatim>\<open>None\<close>, and the node built from it has no child.
\<close>

definition where_node :: "expression option \<Rightarrow> expression" where
  "where_node c = (case c of None \<Rightarrow> Expr Where [] | Some c' \<Rightarrow> Expr Where [(''this'', c')])"

text \<open>The last lines of \<^verbatim>\<open>_apply_row_filter\<close>: merging the condition into the SELECT.\<close>

definition merge_where :: "expression option \<Rightarrow> expression \<Rightarrow> py_error + expression" where
  "merge_where filter_condition select =
     (case map_of (args select) ''where'' of
        Some existing_where \<Rightarrow>
          (case exp_and (map_of (args existing_where) ''this'') filter_condition of
             Inl e \<Rightarrow> Inl e
           | Inr combined \<Rightarrow> Inr (set_arg ''where'' (where_node (Some combined)) select))
      | None \<Rightarrow> Inr (set_arg ''where'' (where_node filter_condition) select))"

text \<open>
  \<^verbatim>\<open>_apply_row_filter\<close>. The search takes the first \<^verbatim>\<open>Select\<close> of the walk among whose
  tables the given table node is found by identity. A node of the tree as parsed keeps
  its position while it stays in the tree, and then the selects that contain it are
  those whose position is a prefix of its own. It leaves the tree when a WHERE above
  it is replaced by the merged one, which holds copies: \<open>detached\<close> lists the positions
  of the WHERE nodes replaced so far, and a table below one of them is found in no
  select. The filter text is parsed inside \<^verbatim>\<open>SELECT * FROM t WHERE ...\<close>; any exception
  from there on is logged and the tree is left as it is.
\<close>

definition is_detached :: "nat list list \<Rightarrow> nat list \<Rightarrow> bool" where
  "is_detached detached pos = list_ex (\<lambda>d. prefix d pos) detached"

definition enclosing_select :: "expression \<Rightarrow> nat list list \<Rightarrow> nat list \<Rightarrow> nat list option" where
  "enclosing_select parsed detached table_pos =
     (case (if is_detached detached table_pos then None
            else find (\<lambda>(p, select_node). prefix p table_pos) (find_all is_select parsed)) of
        Some (p, select_node) \<Rightarrow> Some p
      | None \<Rightarrow> (if is_select parsed then Some [] else None))"

definition apply_row_filter ::
  "(string \<Rightarrow> py_error + expression) \<Rightarrow> expression \<times> nat list list \<Rightarrow> nat list \<Rightarrow> string \<Rightarrow>
   expression \<times> nat list list" where
  "apply_row_filter parse_one st table_pos row_filter_text =
     (let parsed = fst st; detached = snd st
      in case enclosing_select parsed detached table_pos of
           None \<Rightarrow> st
         | Some select_pos \<Rightarrow>
             (case parse_one (''SELECT * FROM t WHERE '' @ row_filter_text) of
                Inl e \<Rightarrow> st
              | Inr filter_expr \<Rightarrow>
                  (case find_all is_where filter_expr of
                     [] \<Rightarrow> st
                   | (wp, filter_where) # rest \<Rightarrow>
                       (case node_at select_pos parsed of
                          None \<Rightarrow> st
                        | Some select \<Rightarrow>
                            (case merge_where (map_of (args filter_where) ''this'') select of
                               Inl e \<Rightarrow> st
                             | Inr select' \<Rightarrow>
                                 (update_at select_pos (\<lambda>old. select') parsed,
                                  (if map_of (args select) ''where'' \<noteq> None
                                   then detached @
                                          [select_pos @ [arg_index ''where'' (args select)]]
                                   else detached)))))))"

text \<open>
  The loop over the table references. A WHERE is only ever set on a SELECT that the
  walk has already left, so the references visited are those of the tree as parsed, in
  walk order; each step carries the tree rewritten so far with the positions detached
  so far, and the blocked names collected so far.
\<close>

definition table_step ::
  "database_access_policy \<Rightarrow> (string \<Rightarrow> py_error + expression) \<Rightarrow>
   (expression \<times> nat list list) \<times> string list \<Rightarrow> nat list \<times> expression \<Rightarrow>
   (expression \<times> nat list list) \<times> string list" where
  "table_step P parse_one st ref =
     (let tree = fst st; blocked = snd st; table_node = snd ref;
          sch = (if table_node_catalog table_node \<noteq> [] then table_node_catalog table_node
                 else ''public'');
          tbl = table_node_name table_node
      in if is_table_blocked P sch tbl then (tree, blocked @ [sch @ ''.'' @ tbl])
         else (case get_row_filter P sch tbl of
                 None \<Rightarrow> (tree, blocked)
               | Some rf \<Rightarrow>
                   (if rf \<noteq> [] then (apply_row_filter parse_one tree (fst ref) rf, blocked)
                    else (tree, blocked))))"

definition table_loop ::
  "database_access_policy \<Rightarrow> (string \<Rightarrow> py_error + expression) \<Rightarrow> expression \<Rightarrow>
   expression \<times> string list" where
  "table_loop P parse_one parsed =
     (let final = foldl (table_step P parse_one) ((parsed, []), []) (find_all is_table parsed)
      in (fst (fst final), snd final))"

definition get_table_for_column :: "expression \<Rightarrow> expression \<Rightarrow> string option" where
  "get_table_for_column col_node parsed =
     (if col_node_table col_node \<noteq> [] then Some (col_node_table col_node)
      else (case find_all is_table parsed of
              [] \<Rightarrow> None
            | (p, table_node) # rest \<Rightarrow> Some (table_node_name table_node)))"

definition split_table_name :: "string \<Rightarrow> string \<times> string" where
  "split_table_name table_name =
     (if CHR ''.'' \<in> set table_name
      then (takeWhile (\<lambda>c. c \<noteq> CHR ''.'') table_name,
            tl (dropWhile (\<lambda>c. c \<noteq> CHR ''.'') table_name))
      else (''public'', table_name))"

definition column_step ::
  "database_access_policy \<Rightarrow> expression \<Rightarrow> string list \<Rightarrow> nat list \<times> expression \<Rightarrow> string list" where
  "column_step P parsed blocked ref =
     (let col_node = snd ref
      in case get_table_for_column col_node parsed of
           None \<Rightarrow> blocked
         | Some table_name \<Rightarrow>
             (if table_name = [] then blocked
              else
                let sch = fst (split_table_name table_name);
                    tbl = snd (split_table_name table_name);
                    denied_cols = get_denied_columns P sch tbl
                in if col_node_name col_node \<in> set denied_cols
                   then blocked @ [sch @ ''.'' @ tbl @ ''.'' @ col_node_name col_node]
                   else (case get_allowed_columns P sch tbl of
                           None \<Rightarrow> blocked
                         | Some allowed_cols \<Rightarrow>
                             (if allowed_cols \<noteq> [] \<and> col_node_name col_node \<notin> set allowed_cols
                              then blocked @ [sch @ ''.'' @ tbl @ ''.'' @ col_node_name col_node]
                              else blocked))))"

definition column_loop :: "database_access_policy \<Rightarrow> expression \<Rightarrow> string list" where
  "column_loop P parsed = foldl (column_step P parsed) [] (find_all is_column parsed)"

text \<open>The body of the \<^verbatim>\<open>try\<close> block, an exception as \<open>Inl\<close>, and the whole method.\<close>

definition rewrite_body ::
  "(string \<Rightarrow> py_error + expression) \<Rightarrow> (expression \<Rightarrow> py_error + string) \<Rightarrow>
   database_access_policy \<Rightarrow> string \<Rightarrow> py_error + security_validation_result" where
  "rewrite_body parse_one to_sql P sql =
     (case parse_one sql of
        Inl e \<Rightarrow> Inl e
      | Inr parsed \<Rightarrow>
          let rewritten = fst (table_loop P parse_one parsed);
              blocked_tbls = snd (table_loop P parse_one parsed);
              blocked_cols = column_loop P rewritten
          in if blocked_tbls \<noteq> [] \<or> blocked_cols \<noteq> [] then
               Inr \<lparr>is_valid = False,
                    error_message = Some (join ''; ''
                      ((if blocked_tbls \<noteq> [] then [''Blocked tables: '' @ join '', '' blocked_tbls]
                        else []) @
                       (if blocked_cols \<noteq> [] then [''Blocked columns: '' @ join '', '' blocked_cols]
                        else []))),
                    res_blocked_tables = blocked_tbls,
                    res_blocked_columns = blocked_cols,
                    rewritten_sql = None\<rparr>
             else (case to_sql rewritten of
                     Inl e \<Rightarrow> Inl e
                   | Inr rewritten_text \<Rightarrow>
                       Inr \<lparr>is_valid = True, error_message = None, res_blocked_tables = [],
                            res_blocked_columns = [], rewritten_sql = Some rewritten_text\<rparr>))"

definition rewrite_and_validate ::
  "(string \<Rightarrow> py_error + expression) \<Rightarrow> (expression \<Rightarrow> py_error + string) \<Rightarrow>
   database_access_policy \<Rightarrow> string \<Rightarrow> security_validation_result" where
  "rewrite_and_validate parse_one to_sql P sql =
     (case rewrite_body parse_one to_sql P sql of
        Inr result \<Rightarrow> result
      | Inl e \<Rightarrow>
          \<lparr>is_valid = False, error_message = Some (''Access control error: '' @ error_text e),
           res_blocked_tables = [], res_blocked_columns = [], rewritten_sql = None\<rparr>)"

section \<open>SQL validator (pg\_mcp\_server/core/sql\_validator.py)\<close>

text \<open>\<^verbatim>\<open>str.lower()\<close> on the letters A to Z.\<close>

definition lower_char :: "char \<Rightarrow> char" where
  "lower_char c =
     (if 65 \<le> (of_char c :: nat) \<and> (of_char c :: nat) \<le> 90 then char_of (of_char c + (32::nat))
      else c)"

definition lower :: "string \<Rightarrow> string" where
  "lower s = map lower_char s"

definition dangerous_function_names :: "string list" where
  "dangerous_function_names =
     [''pg_read_file'', ''pg_write_file'', ''pg_execute'', ''copy'', ''pg_terminate_backend'',
      ''pg_cancel_backend'', ''set_config'', ''current_setting'', ''pg_reload_conf'',
      ''pg_rotate_logfile'', ''pg_ls_dir'', ''pg_read_binary_file'', ''pg_stat_file'']"

text \<open>
  \<^verbatim>\<open>str(node.this)\<close> of an anonymous function: the name itself when \<^verbatim>\<open>this\<close> is a plain
  string, the identifier as SQL when it is a quoted identifier, that is the name inside
  double quotes, a double quote in it doubled.
\<close>

definition this_text :: "string \<Rightarrow> bool \<Rightarrow> string" where
  "this_text n quoted =
     (if quoted
      then [CHR 0x22] @ concat (map (\<lambda>c. if c = CHR 0x22 then [c, c] else [c]) n) @ [CHR 0x22]
      else n)"

text \<open>
  The name the check reads off a function node: \<^verbatim>\<open>str(node.this).lower()\<close> for an
  anonymous function, \<^verbatim>\<open>node.sql_name().lower()\<close> for every other function class.
\<close>

fun func_name :: "expression \<Rightarrow> string" where
  "func_name (Expr (Anonymous n quoted) as) = lower (this_text n quoted)"
| "func_name (Expr (Func class_name sql_name) as) = lower sql_name"
| "func_name e = []"

definition check_dangerous_functions :: "expression \<Rightarrow> string list" where
  "check_dangerous_functions parsed =
     map (\<lambda>(p, node). func_name node)
       (filter (\<lambda>(p, node). func_name node \<noteq> [] \<and> func_name node \<in> set dangerous_function_names)
          (find_all is_func parsed))"

definition subquery_this_name :: "expression \<Rightarrow> string" where
  "subquery_this_name node =
     (case map_of (args node) ''this'' of None \<Rightarrow> ''NoneType'' | Some sub \<Rightarrow> kind_name (kind sub))"

definition check_subqueries :: "expression \<Rightarrow> string option" where
  "check_subqueries parsed =
     (case filter (\<lambda>(p, node). is_subquery node \<and>
                     (case map_of (args node) ''this'' of None \<Rightarrow> True | Some sub \<Rightarrow> \<not> is_select sub))
             (walk parsed) of
        [] \<Rightarrow> None
      | (p, node) # rest \<Rightarrow> Some (subquery_this_name node))"

definition validate_sql :: "(string \<Rightarrow> py_error + expression) \<Rightarrow> string \<Rightarrow> bool \<times> string option" where
  "validate_sql parse_one sql =
     (case parse_one sql of
        Inl (ParseError m) \<Rightarrow> (False, Some (''SQL syntax error: '' @ m))
      | Inl e \<Rightarrow> (False, Some (''SQL validation failed: '' @ error_text e))
      | Inr parsed \<Rightarrow>
          if \<not> is_select parsed then
            (False, Some (''Only SELECT queries are allowed. Detected: '' @ kind_name (kind parsed)))
          else if check_dangerous_functions parsed \<noteq> [] then
            (False, Some (''Dangerous functions detected: '' @
                           join '', '' (check_dangerous_functions parsed)))
          else (case check_subqueries parsed of
                  Some non_select \<Rightarrow>
                    (if non_select \<noteq> [] then
                       (False, Some (''Non-SELECT statement in subquery: '' @ non_select))
                     else (True, None))
                | None \<Rightarrow> (True, None)))"

text \<open>
  \<^verbatim>\<open>format_sql\<close>: the body of the \<^verbatim>\<open>try\<close> block, and the method with its handler. The
  result type keeps a place for an exception leaving the method.
\<close>

definition format_sql_body ::
  "(string \<Rightarrow> py_error + expression) \<Rightarrow> (expression \<Rightarrow> py_error + string) \<Rightarrow> string \<Rightarrow>
   py_error + string" where
  "format_sql_body parse_one to_sql sql =
     (case parse_one sql of Inl e \<Rightarrow> Inl e | Inr parsed \<Rightarrow> to_sql parsed)"

definition format_sql ::
  "(string \<Rightarrow> py_error + expression) \<Rightarrow> (expression \<Rightarrow> py_error + string) \<Rightarrow> string \<Rightarrow>
   py_error + string" where
  "format_sql parse_one to_sql sql =
     (case format_sql_body parse_one to_sql sql of
        Inr formatted \<Rightarrow> Inr formatted
      | Inl e \<Rightarrow> Inr sql)"


section \<open>Executors (core/sql\_executor.py, core/multi\_database\_executor.py)\<close>

text \<open>
  A fetched row is an asyncpg \<^verbatim>\<open>Record\<close>: its fields in order. \<^verbatim>\<open>dict(row)\<close> inserts the
  fields one by one, a repeated name keeping its first place and its last value. What
  the connection does (\<^verbatim>\<open>pool.acquire\<close>, \<^verbatim>\<open>conn.fetch\<close>) is an argument: the outcome of the
  fetch at each attempt. The elapsed time in the result is left out.
\<close>

datatype pg_value = VNull | VBool bool | VInt int | VFloat real | VStr string

fun type_name :: "pg_value \<Rightarrow> string" where
  "type_name VNull = ''NoneType''"
| "type_name (VBool b) = ''bool''"
| "type_name (VInt i) = ''int''"
| "type_name (VFloat f) = ''float''"
| "type_name (VStr s) = ''str''"

type_synonym row = "(string \<times> pg_value) list"

record column_metadata =
  name :: string
  type :: string

definition dict_of :: "row \<Rightarrow> (string \<times> pg_value) list" where
  "dict_of r = foldl (\<lambda>d kv. AList.update (fst kv) (snd kv) d) [] r"

text \<open>\<^verbatim>\<open>rows[:n]\<close>: a negative bound counts from the end.\<close>

definition slice_to :: "int \<Rightarrow> 'a list \<Rightarrow> 'a list" where
  "slice_to n xs = (if 0 \<le> n then take (nat n) xs else take (nat (int (length xs) + n)) xs)"

definition limit_rows :: "int \<Rightarrow> row list \<Rightarrow> row list" where
  "limit_rows max_rows rows = (if int (length rows) > max_rows then slice_to max_rows rows else rows)"

definition column_metadata_of :: "row list \<Rightarrow> column_metadata list" where
  "column_metadata_of rows =
     (case rows of
        [] \<Rightarrow> []
      | r # rest \<Rightarrow> map (\<lambda>kv. \<lparr>name = fst kv, type = type_name (snd kv)\<rparr>) r)"

text \<open>
  \<^verbatim>\<open>retry_on_db_error(max_attempts)\<close>: the wrapped call is tried again after a connection
  or interface error, except at the last attempt; anything else leaves at once.
\<close>

fun is_db_connection_error :: "py_error \<Rightarrow> bool" where
  "is_db_connection_error (PostgresConnectionError m) = True"
| "is_db_connection_error (InterfaceError m) = True"
| "is_db_connection_error e = False"

fun retry_loop :: "nat \<Rightarrow> nat \<Rightarrow> nat \<Rightarrow> (nat \<Rightarrow> py_error + 'a) \<Rightarrow> py_error + 'a" where
  "retry_loop 0 attempt max_attempts func = Inl (RuntimeError ''Should not reach here'')"
| "retry_loop (Suc remaining) attempt max_attempts func =
     (case func attempt of
        Inr result \<Rightarrow> Inr result
      | Inl e \<Rightarrow>
          (if is_db_connection_error e then
             (if int attempt = int max_attempts - 1 then Inl e
              else retry_loop remaining (Suc attempt) max_attempts func)
           else Inl e))"

definition retry_on_db_error :: "nat \<Rightarrow> (nat \<Rightarrow> py_error + 'a) \<Rightarrow> py_error + 'a" where
  "retry_on_db_error max_attempts func = retry_loop max_attempts 0 max_attempts func"

record sql_executor =
  pool_initialized :: bool
  limits_max_rows :: int

definition sql_executor_attempt ::
  "sql_executor \<Rightarrow> (py_error + row list) \<Rightarrow>
   py_error + (string \<times> pg_value) list list \<times> column_metadata list" where
  "sql_executor_attempt ex fetched =
     (if \<not> pool_initialized ex then Inl (RuntimeError ''Database pool not initialized'')
      else (case fetched of
              Inl e \<Rightarrow> Inl e
            | Inr rows \<Rightarrow>
                let rows' = limit_rows (limits_max_rows ex) rows
                in Inr (map dict_of rows', column_metadata_of rows')))"

definition sql_executor_execute_query ::
  "sql_executor \<Rightarrow> (nat \<Rightarrow> string \<Rightarrow> py_error + row list) \<Rightarrow> string \<Rightarrow>
   py_error + (string \<times> pg_value) list list \<times> column_metadata list" where
  "sql_executor_execute_query ex fetch sql =
     retry_on_db_error 2 (\<lambda>attempt. sql_executor_attempt ex (fetch attempt sql))"

text \<open>
  \<^verbatim>\<open>DatabaseExecutor\<close> holds a rewriter exactly when its configuration has a policy.
  \<^verbatim>\<open>_check_explain_cost\<close> swallows every failure but its own \<^verbatim>\<open>PermissionError\<close>; the
  total cost it reads off the plan is an argument (\<open>None\<close> when the plan gives none),
  and so is \<open>float_str\<close>, Python's rendering of a float in an f-string.
\<close>

record database_executor =
  db_pool_initialized :: bool
  access_policy :: "database_access_policy option"

definition check_explain_cost ::
  "(real \<Rightarrow> string) \<Rightarrow> database_access_policy \<Rightarrow> real option \<Rightarrow> py_error option" where
  "check_explain_cost float_str P total_cost =
     (case total_cost of
        None \<Rightarrow> None
      | Some cost \<Rightarrow>
          (case max_explain_cost P of
             None \<Rightarrow> None
           | Some max_cost \<Rightarrow>
               (if max_cost \<noteq> 0 \<and> cost > max_cost
                then Some (PermissionError
                       (''Query cost ('' @ float_str cost @ '') exceeds maximum allowed cost (''
                        @ float_str max_cost @ '')''))
                else None)))"

definition final_sql_of ::
  "(string \<Rightarrow> py_error + expression) \<Rightarrow> (expression \<Rightarrow> py_error + string) \<Rightarrow>
   database_executor \<Rightarrow> string \<Rightarrow> py_error + string" where
  "final_sql_of parse_one to_sql ex sql =
     (case access_policy ex of
        None \<Rightarrow> Inr sql
      | Some P \<Rightarrow>
          let validation_result = rewrite_and_validate parse_one to_sql P sql
          in if \<not> is_valid validation_result then
               Inl (PermissionError (''Access control violation: '' @
                      (case error_message validation_result of None \<Rightarrow> ''None'' | Some m \<Rightarrow> m)))
             else (case rewritten_sql validation_result of
                     None \<Rightarrow> Inr sql
                   | Some rewritten \<Rightarrow> (if rewritten \<noteq> [] then Inr rewritten else Inr sql)))"

definition explain_gate ::
  "(real \<Rightarrow> string) \<Rightarrow> database_executor \<Rightarrow> (string \<Rightarrow> real option) \<Rightarrow> string \<Rightarrow>
   py_error option" where
  "explain_gate float_str ex explain_cost final_sql =
     (case access_policy ex of
        None \<Rightarrow> None
      | Some P \<Rightarrow> (if require_explain P
                    then check_explain_cost float_str P (explain_cost final_sql)
                    else None))"

definition database_executor_attempt ::
  "(string \<Rightarrow> py_error + expression) \<Rightarrow> (expression \<Rightarrow> py_error + string) \<Rightarrow>
   (real \<Rightarrow> string) \<Rightarrow> database_executor \<Rightarrow> (string \<Rightarrow> real option) \<Rightarrow>
   (string \<Rightarrow> py_error + row list) \<Rightarrow> string \<Rightarrow> int \<Rightarrow>
   py_error + (string \<times> pg_value) list list \<times> column_metadata list" where
  "database_executor_attempt parse_one to_sql float_str ex explain_cost fetch sql max_rows =
     (if \<not> db_pool_initialized ex then Inl (RuntimeError ''Database pool not initialized'')
      else (case final_sql_of parse_one to_sql ex sql of
              Inl e \<Rightarrow> Inl e
            | Inr final_sql \<Rightarrow>
                (case explain_gate float_str ex explain_cost final_sql of
                   Some e \<Rightarrow> Inl e
                 | None \<Rightarrow>
                     (case fetch final_sql of
                        Inl e \<Rightarrow> Inl e
                      | Inr rows \<Rightarrow>
                          let rows' = limit_rows max_rows rows
                          in Inr (map dict_of rows', column_metadata_of rows')))))"

definition database_executor_execute_query ::
  "(string \<Rightarrow> py_error + expression) \<Rightarrow> (expression \<Rightarrow> py_error + string) \<Rightarrow>
   (real \<Rightarrow> string) \<Rightarrow> database_executor \<Rightarrow> (string \<Rightarrow> real option) \<Rightarrow>
   (nat \<Rightarrow> string \<Rightarrow> py_error + row list) \<Rightarrow> string \<Rightarrow> int \<Rightarrow>
   py_error + (string \<times> pg_value) list list \<times> column_metadata list" where
  "database_executor_execute_query parse_one to_sql float_str ex explain_cost fetch sql max_rows =
     retry_on_db_error 2
       (\<lambda>attempt. database_executor_attempt parse_one to_sql float_str ex explain_cost
                     (fetch attempt) sql max_rows)"

section \<open>Metrics collector (pg\_mcp\_server/utils/metrics.py)\<close>

text \<open>
  The counters are a \<^verbatim>\<open>defaultdict(float)\<close>, the gauges a dict; values are real numbers.
  Labels are a dict of strings, given by its items. The histogram and timer stores take
  no part in what a counter holds and are left out.
\<close>

record metrics_collector =
  metrics_enabled :: bool
  collect_query :: bool
  collect_sql :: bool
  collect_db :: bool
  counters :: "string \<rightharpoonup> real"
  gauges :: "string \<rightharpoonup> real"

definition should_collect :: "metrics_collector \<Rightarrow> string \<Rightarrow> bool" where
  "should_collect m metric =
     (if \<not> metrics_enabled m then False
      else if prefix ''mcp.query.'' metric \<and> \<not> collect_query m then False
      else if prefix ''mcp.sql.'' metric \<and> \<not> collect_sql m then False
      else if (prefix ''mcp.db.'' metric \<or> prefix ''mcp.schema.'' metric \<or>
               prefix ''mcp.validation.'' metric) \<and> \<not> collect_db m then False
      else True)"

definition make_key :: "string \<Rightarrow> (string \<times> string) list option \<Rightarrow> string" where
  "make_key metric labels =
     (case labels of
        None \<Rightarrow> metric
      | Some items \<Rightarrow>
          (if items = [] then metric
           else metric @ ''{'' @ join '','' (map (\<lambda>kv. fst kv @ ''='' @ snd kv) (sort_key fst items))
                @ ''}''))"

definition increment ::
  "metrics_collector \<Rightarrow> string \<Rightarrow> real \<Rightarrow> (string \<times> string) list option \<Rightarrow> metrics_collector" where
  "increment m metric v labels =
     (if \<not> should_collect m metric then m
      else
        let key = make_key metric labels
        in m\<lparr>counters := (counters m)
               (key \<mapsto> (case counters m key of None \<Rightarrow> 0 | Some old \<Rightarrow> old) + v)\<rparr>)"

definition set_gauge ::
  "metrics_collector \<Rightarrow> string \<Rightarrow> real \<Rightarrow> (string \<times> string) list option \<Rightarrow> metrics_collector" where
  "set_gauge m metric v labels =
     (if \<not> should_collect m metric then m
      else m\<lparr>gauges := (gauges m)(make_key metric labels \<mapsto> v)\<rparr>)"

definition get_counter :: "metrics_collector \<Rightarrow> string \<Rightarrow> (string \<times> string) list option \<Rightarrow> real" where
  "get_counter m metric labels =
     (case counters m (make_key metric labels) of None \<Rightarrow> 0 | Some v \<Rightarrow> v)"

definition metrics_reset :: "metrics_collector \<Rightarrow> metrics_collector" where
  "metrics_reset m = m\<lparr>counters := Map.empty, gauges := Map.empty\<rparr>"

text \<open>A history of \<^verbatim>\<open>increment\<close> calls: metric name, value and labels of each.\<close>

definition increments ::
  "metrics_collector \<Rightarrow> (string \<times> real \<times> (string \<times> string) list option) list \<Rightarrow> metrics_collector" where
  "increments m calls = foldl (\<lambda>m' c. increment m' (fst c) (fst (snd c)) (snd (snd c))) m calls"


section \<open>Notions the properties are stated with\<close>

text \<open>The nodes of a tree: the root and, with a node, every child in its \<^verbatim>\<open>args\<close>.\<close>

inductive_set subnodes :: "expression \<Rightarrow> expression set" for e :: expression where
  root: "e \<in> subnodes e"
| child: "n \<in> subnodes e \<Longrightarrow> (key, c) \<in> set (args n) \<Longrightarrow> c \<in> subnodes e"

text \<open>
  The bare name of the function a node calls: the name as written, without the double
  quotes of a quoted identifier.
\<close>

fun bare_name :: "expression \<Rightarrow> string" where
  "bare_name (Expr (Anonymous n quoted) as) = n"
| "bare_name (Expr (Func class_name sql_name) as) = sql_name"
| "bare_name e = []"

section \<open>Sample statements\<close>

text \<open>
  The trees sqlglot builds for the statements used as concrete inputs below, and a
  parser and a generator that know these statements only. \<^verbatim>\<open>secret.users\<close> has the
  schema in \<^verbatim>\<open>db\<close> and no catalog; \<^verbatim>\<open>current_user_id()\<close> is an anonymous function;
  \<^verbatim>\<open>SELECT (\<close> does not parse. \<open>quoted_call_sql\<close> is the statement
  \<^verbatim>\<open>SELECT "pg_read_file"('x')\<close>, a call of \<^verbatim>\<open>pg_read_file\<close> with the name written
  as a quoted identifier.
\<close>

definition quoted_call_sql :: string where
  "quoted_call_sql =
     ''SELECT '' @ [CHR 0x22] @ ''pg_read_file'' @ [CHR 0x22] @ ''('' @ [CHR 0x27] @ ''x''
       @ [CHR 0x27] @ '')''"

definition quoted_call_tree :: expression where
  "quoted_call_tree =
     Expr Select
       [(''expressions'',
         Expr (Anonymous ''pg_read_file'' True) [(''expressions'', Expr (Literal ''x'') [])])]"

definition orders_tree :: expression where
  "orders_tree =
     Expr Select
       [(''expressions'', Expr (Column [] ''id'') []),
        (''from'', Expr From [(''this'', Expr (Table [] [] ''orders'') [])])]"

definition nested_tree :: expression where
  "nested_tree =
     Expr Select
       [(''expressions'', Expr (Column [] ''id'') []),
        (''from'', Expr From
           [(''this'', Expr Subquery
              [(''this'', orders_tree), (''alias'', Expr (Other ''TableAlias'') [])])])]"

definition user_condition :: expression where
  "user_condition =
     Expr EQ
       [(''this'', Expr (Column [] ''user_id'') []),
        (''expression'', Expr (Anonymous ''current_user_id'' False) [])]"

definition filter_tree :: expression where
  "filter_tree =
     Expr Select
       [(''expressions'', Expr Star []),
        (''from'', Expr From [(''this'', Expr (Table [] [] ''t'') [])]),
        (''where'', Expr Where [(''this'', user_condition)])]"

definition secret_tree :: expression where
  "secret_tree =
     Expr Select
       [(''expressions'', Expr Star []),
        (''from'', Expr From [(''this'', Expr (Table [] ''secret'' ''users'') [])])]"

definition sample_parse_one :: "string \<Rightarrow> py_error + expression" where
  "sample_parse_one sql =
     (if sql = ''SELECT id FROM orders'' then Inr orders_tree
      else if sql = ''SELECT id FROM (SELECT id FROM orders) AS x'' then Inr nested_tree
      else if sql = ''SELECT * FROM t WHERE user_id = current_user_id()'' then Inr filter_tree
      else if sql = ''SELECT * FROM secret.users'' then Inr secret_tree
      else if sql = quoted_call_sql then Inr quoted_call_tree
      else Inl (ParseError ''Invalid expression / Unexpected token''))"

definition orders_rendered :: string where
  "orders_rendered = ''SELECT'' @ [CHR 0x0A] @ ''  id'' @ [CHR 0x0A] @ ''FROM orders''"

definition secret_rendered :: string where
  "secret_rendered = ''SELECT'' @ [CHR 0x0A] @ ''  *'' @ [CHR 0x0A] @ ''FROM secret.users''"

definition sample_to_sql :: "expression \<Rightarrow> py_error + string" where
  "sample_to_sql e =
     (if e = orders_tree then Inr orders_rendered
      else if e = secret_tree then Inr secret_rendered
      else Inl (OtherException ''not a sample statement''))"

definition orders_policy :: database_access_policy where
  "orders_policy =
     \<lparr>database_name = ''test'', default_access = READ,
      table_rules =
        [\<lparr>schema = ''public'', table = ''orders'', access_level = READ, allowed_columns = None,
          denied_columns = None, row_filter = Some ''user_id = current_user_id()'',
          comment = None\<rparr>],
      require_explain = False, max_explain_cost = None, blocked_tables = []\<rparr>"

definition secret_policy :: database_access_policy where
  "secret_policy =
     \<lparr>database_name = ''test'', default_access = READ, table_rules = [],
      require_explain = False, max_explain_cost = None, blocked_tables = [''secret.users'']\<rparr>"

definition limiter_1_1 :: rate_limit_config where
  "limiter_1_1 = \<lparr>max_requests = 1, time_window = 1, enabled = True\<rparr>"

definition all_metrics :: metrics_collector where
  "all_metrics =
     \<lparr>metrics_enabled = True, collect_query = True, collect_sql = True, collect_db = True,
      counters = Map.empty, gauges = Map.empty\<rparr>"


definition sample_rows :: "row list" where
  "sample_rows = [[(''id'', VInt 1)], [(''id'', VInt 2)]]"

definition sample_sql_executor :: sql_executor where
  "sample_sql_executor = \<lparr>pool_initialized = True, limits_max_rows = 2\<rparr>"

definition sample_database_executor :: database_executor where
  "sample_database_executor = \<lparr>db_pool_initialized = True, access_policy = Some secret_policy\<rparr>"

definition fetch_exact :: "nat \<Rightarrow> string \<Rightarrow> py_error + row list" where
  "fetch_exact attempt sql = Inr sample_rows"

definition fetch_over :: "nat \<Rightarrow> string \<Rightarrow> py_error + row list" where
  "fetch_over attempt sql = Inr (sample_rows @ [[(''id'', VInt 3)]])"

definition no_explain_cost :: "string \<Rightarrow> real option" where
  "no_explain_cost sql = None"

text \<open>Python's rendering of the costs 28 and 100; no other cost occurs in the samples.\<close>

definition sample_float_str :: "real \<Rightarrow> string" where
  "sample_float_str x = (if x = 28 then ''28.0'' else ''100.0'')"


section \<open>Rate limiter: the window invariant and the read-only usage query\<close>

lemma limiter_step_config: "config (limiter_step s c) = config s"
  by (cases c)
     (auto simp: check_rate_limit_def get_current_usage_def reset_def Let_def split: option.splits)

lemma limiter_run_config: "config (limiter_run s cs) = config s"
  unfolding limiter_run_def by (induction cs arbitrary: s) (simp_all add: limiter_step_config)

lemma usage_frame: "snd (get_current_usage s t k) = s"
  by (simp add: get_current_usage_def Let_def split: option.splits)

lemma usage_run: "limiter_run s (map (\<lambda>q. Usage (fst q) (snd q)) qs) = s"
  unfolding limiter_run_def by (induction qs arbitrary: s) (simp_all add: usage_frame)

lemma check_bounded:
  assumes "enabled (config s)" "record_bounded s"
  shows "record_bounded (snd (check_rate_limit s t k))"
  unfolding record_bounded_def
proof
  fix k'
  let ?N = "max_requests (config s)"
  let ?f = "filter (\<lambda>ts. ts > t - real_of_int (time_window (config s))) (record_of s k)"
  have old: "int (length (record_of s k')) \<le> ?N" for k'
    using assms(2) by (simp add: record_bounded_def)
  have le: "length ?f \<le> length (record_of s k)" by simp
  have f: "int (length ?f) \<le> ?N" using le old [of k] by linarith
  show "int (length (record_of (snd (check_rate_limit s t k)) k'))
          \<le> max_requests (config (snd (check_rate_limit s t k)))"
  proof (cases "k' = k")
    case True
    then show ?thesis using assms(1) f
      by (auto simp: check_rate_limit_def Let_def record_of_def [of "_\<lparr>records := _\<rparr>"])
  next
    case False
    then show ?thesis using assms(1) old [of k']
      by (auto simp: check_rate_limit_def Let_def record_of_def)
  qed
qed

lemma check_disabled: "\<not> enabled (config s) \<Longrightarrow> snd (check_rate_limit s t k) = s"
  by (simp add: check_rate_limit_def)

lemma reset_bounded:
  assumes "0 \<le> max_requests (config s)" "record_bounded s"
  shows "record_bounded (reset s k)"
  using assms unfolding record_bounded_def reset_def record_of_def
  by (auto split: option.splits)

lemma step_bounded:
  assumes "0 \<le> max_requests (config s)" "record_bounded s"
  shows "record_bounded (limiter_step s c)"
proof (cases c)
  case (Check t k)
  then show ?thesis
    using assms check_bounded [of s t k] check_disabled [of s t k]
    by (cases "enabled (config s)") auto
next
  case (Usage t k)
  then show ?thesis using assms by (simp add: usage_frame)
next
  case (Reset k)
  then show ?thesis using assms by (simp add: reset_bounded)
qed

lemma run_bounded:
  assumes "0 \<le> max_requests (config s)" "record_bounded s"
  shows "record_bounded (limiter_run s cs)"
  using assms unfolding limiter_run_def
proof (induction cs arbitrary: s)
  case Nil
  then show ?case by simp
next
  case (Cons c cs)
  have "record_bounded (limiter_step s c)" using Cons.prems by (rule step_bounded)
  moreover have "0 \<le> max_requests (config (limiter_step s c))"
    using Cons.prems by (simp add: limiter_step_config)
  ultimately show ?case using Cons.IH by simp
qed

lemma new_bounded: "0 \<le> max_requests c \<Longrightarrow> record_bounded (new_rate_limiter c)"
  by (simp add: record_bounded_def new_rate_limiter_def record_of_def)

text \<open>
  Claim C5, as stated, counts the timestamps of the closed window \<open>[now - W, now]\<close>. With
  capacity 1 and window 1, a probe at time 0 is allowed and recorded; the probe at time 1
  is allowed too, although the record then holds one timestamp, 0, inside \<open>[0, 1]\<close>: the
  count before the probe was not below the capacity.
\<close>

theorem rate_limit_boundary_allowed:
  "fst (fst (check_rate_limit (limiter_run (new_rate_limiter limiter_1_1) [Check 0 ''db1''])
              1 ''db1''))
   \<and> \<not> int (closed_window_count (limiter_run (new_rate_limiter limiter_1_1) [Check 0 ''db1''])
              1 ''db1'') < max_requests limiter_1_1"
  by (simp add: limiter_run_def check_rate_limit_def new_rate_limiter_def limiter_1_1_def
        record_of_def closed_window_count_def Let_def)

text \<open>
  Claim C5, amended. For a limiter of capacity \<open>N \<ge> 0\<close>, after any history of probes,
  usage queries and resets from the empty limiter, every key holds at most \<open>N\<close>
  timestamps within \<open>[now - W, now]\<close>, for every \<open>now\<close>; and when the limiter is enabled
  and a probe at \<open>now\<close> is allowed, the key held fewer than \<open>N\<close> timestamps later than
  \<open>now - W\<close> just before the probe.
\<close>

theorem rate_limit_window_bound:
  assumes "0 \<le> max_requests c"
  shows "int (closed_window_count (limiter_run (new_rate_limiter c) calls) now key)
           \<le> max_requests c
     \<and> (enabled c \<and> fst (fst (check_rate_limit (limiter_run (new_rate_limiter c) calls) now key))
          \<longrightarrow> int (open_window_count (limiter_run (new_rate_limiter c) calls) now key)
                < max_requests c)"
proof -
  let ?s = "limiter_run (new_rate_limiter c) calls"
  have cfg: "config ?s = c" by (simp add: limiter_run_config new_rate_limiter_def)
  have "record_bounded ?s"
    using assms by (intro run_bounded new_bounded) (simp_all add: new_rate_limiter_def)
  then have len: "int (length (record_of ?s key)) \<le> max_requests c"
    by (simp add: record_bounded_def cfg)
  have "closed_window_count ?s now key \<le> length (record_of ?s key)"
    by (simp add: closed_window_count_def)
  with len have A: "int (closed_window_count ?s now key) \<le> max_requests c" by linarith
  have B: "enabled c \<and> fst (fst (check_rate_limit ?s now key)) \<longrightarrow>
          int (open_window_count ?s now key) < max_requests c"
    by (auto simp: check_rate_limit_def open_window_count_def cfg Let_def split: if_splits)
  show ?thesis using A B by blast
qed

theorem rate_limit_window_bound_witness:
  "(0::int) \<le> max_requests limiter_1_1
   \<and> enabled limiter_1_1
   \<and> fst (fst (check_rate_limit (limiter_run (new_rate_limiter limiter_1_1) [Check 0 ''db1''])
                2 ''db1''))
   \<and> int (closed_window_count (limiter_run (new_rate_limiter limiter_1_1) [Check 0 ''db1''])
            2 ''db1'') \<le> max_requests limiter_1_1
   \<and> int (open_window_count (limiter_run (new_rate_limiter limiter_1_1) [Check 0 ''db1''])
            2 ''db1'') < max_requests limiter_1_1"
proof -
  have h: "(0::int) \<le> max_requests limiter_1_1" by (simp add: limiter_1_1_def)
  have e: "enabled limiter_1_1" by (simp add: limiter_1_1_def)
  have a: "fst (fst (check_rate_limit
                 (limiter_run (new_rate_limiter limiter_1_1) [Check 0 ''db1'']) 2 ''db1''))"
    by (simp add: limiter_run_def check_rate_limit_def new_rate_limiter_def limiter_1_1_def
          record_of_def Let_def)
  show ?thesis
    using h e a rate_limit_window_bound [OF h, of "[Check 0 ''db1'']" 2 "''db1''"] by simp
qed

text \<open>
  Claim C10. \<^verbatim>\<open>get_current_usage\<close> leaves the limiter as it found it; so does any number
  of such calls, at any clock values and for any keys, and a probe made afterwards has
  the outcome, and leaves the limiter in the state, of the same probe made without them.
\<close>

theorem get_current_usage_read_only:
  "snd (get_current_usage s t k) = s \<and>
   limiter_run s (map (\<lambda>q. Usage (fst q) (snd q)) qs) = s \<and>
   check_rate_limit (limiter_run s (map (\<lambda>q. Usage (fst q) (snd q)) qs)) t' k' =
     check_rate_limit s t' k'"
  by (simp add: usage_frame usage_run)


section \<open>Metrics: counters under increments\<close>

lemma increment_mono:
  assumes "0 \<le> v"
  shows "get_counter m metric labels \<le> get_counter (increment m nm v lbls) metric labels"
  using assms by (auto simp: get_counter_def increment_def Let_def split: option.splits)

lemma increments_mono:
  assumes "\<forall>c \<in> set calls. 0 \<le> fst (snd c)"
  shows "get_counter m metric labels \<le> get_counter (increments m calls) metric labels"
  using assms unfolding increments_def
proof (induction calls arbitrary: m)
  case Nil
  then show ?case by simp
next
  case (Cons c calls)
  have "get_counter m metric labels
          \<le> get_counter (increment m (fst c) (fst (snd c)) (snd (snd c))) metric labels"
    using Cons.prems by (simp add: increment_mono)
  also have "\<dots> \<le> get_counter
                 (foldl (\<lambda>m' c. increment m' (fst c) (fst (snd c)) (snd (snd c)))
                    (increment m (fst c) (fst (snd c)) (snd (snd c))) calls) metric labels"
    using Cons.IH Cons.prems by simp
  finally show ?case by simp
qed

lemma increments_append: "increments m (xs @ ys) = increments (increments m xs) ys"
  by (simp add: increments_def)

text \<open>
  Claim C7, as stated, lets \<^verbatim>\<open>increment\<close> take any value of its type. The interface
  takes a float and adds it unchecked: after an increment by 1, an increment by -1
  brings the counter from 1 back to 0.
\<close>

theorem counter_negative_increment_decreases:
  "get_counter (increments all_metrics
       [(''mcp.query.total'', 1, None), (''mcp.query.total'', - 1, None)])
     ''mcp.query.total'' None
   < get_counter (increments all_metrics [(''mcp.query.total'', 1, None)])
       ''mcp.query.total'' None"
  by (simp add: increments_def increment_def get_counter_def should_collect_def
        all_metrics_def make_key_def Let_def)

text \<open>
  Claim C7, amended. For every metric name and label set, when every later
  \<^verbatim>\<open>increment\<close> has a value \<open>\<ge> 0\<close> and no reset is called, the counter observed after
  the later increments is at least the counter observed before them.
\<close>

theorem counter_monotone:
  assumes "\<forall>c \<in> set later. 0 \<le> fst (snd c)"
  shows "get_counter (increments m earlier) metric labels
           \<le> get_counter (increments m (earlier @ later)) metric labels"
  using increments_mono [OF assms] by (simp add: increments_append)

theorem counter_monotone_witness:
  "get_counter (increments all_metrics [(''mcp.query.total'', 1, None)]) ''mcp.query.total'' None
     \<le> get_counter (increments all_metrics
          ([(''mcp.query.total'', 1, None)] @ [(''mcp.query.total'', 2, None)]))
        ''mcp.query.total'' None"
proof -
  have h: "\<forall>c \<in> set [(''mcp.query.total'', 2::real, None :: (string \<times> string) list option)].
             0 \<le> fst (snd c)"
    by simp
  show ?thesis
    using counter_monotone
      [OF h, of all_metrics "[(''mcp.query.total'', 1, None)]" "''mcp.query.total''" None]
    by simp
qed

section \<open>Executors: the row limit\<close>

lemma limit_rows_exact: "int (length rows) = m \<Longrightarrow> limit_rows m rows = rows"
  by (simp add: limit_rows_def)

lemma limit_rows_over: "int (length rows) = m \<Longrightarrow> limit_rows m (rows @ [extra]) = rows"
  by (auto simp: limit_rows_def slice_to_def)

lemma retry_first: "func 0 = Inr r \<Longrightarrow> retry_on_db_error 2 func = Inr r"
  by (simp add: retry_on_db_error_def numeral_2_eq_2)

text \<open>
  Claim C6. On an initialized executor, with \<open>rows\<close> of exactly \<open>max_rows\<close> rows: a fetch
  that yields \<open>rows\<close> returns all of them, and a fetch that yields \<open>rows\<close> and one more
  row returns exactly \<open>rows\<close>, the first \<open>max_rows\<close>; both are results, not errors. This
  holds for \<^verbatim>\<open>SQLExecutor.execute_query\<close> with its configured limit and for
  \<^verbatim>\<open>DatabaseExecutor.execute_query\<close> with its \<^verbatim>\<open>max_rows\<close> argument, once access control
  and the cost check have let the statement through.
\<close>

theorem execute_query_row_limit:
  assumes "pool_initialized ex" and "db_pool_initialized dex"
    and "int (length rows) = limits_max_rows ex" and "int (length rows) = max_rows"
    and "fetch_full 0 final_sql = Inr rows" and "fetch_more 0 final_sql = Inr (rows @ [extra])"
    and "final_sql_of parse_one to_sql dex sql = Inr final_sql"
    and "explain_gate float_str dex explain_cost final_sql = None"
  shows "sql_executor_execute_query ex fetch_full final_sql
           = Inr (map dict_of rows, column_metadata_of rows)
    \<and> sql_executor_execute_query ex fetch_more final_sql
           = Inr (map dict_of rows, column_metadata_of rows)
    \<and> database_executor_execute_query parse_one to_sql float_str dex explain_cost fetch_full sql max_rows
           = Inr (map dict_of rows, column_metadata_of rows)
    \<and> database_executor_execute_query parse_one to_sql float_str dex explain_cost fetch_more sql max_rows
           = Inr (map dict_of rows, column_metadata_of rows)"
proof -
  have a: "sql_executor_attempt ex (fetch_full 0 final_sql)
             = Inr (map dict_of rows, column_metadata_of rows)"
    using assms(1,3,5) by (simp add: sql_executor_attempt_def limit_rows_exact)
  have b: "sql_executor_attempt ex (fetch_more 0 final_sql)
             = Inr (map dict_of rows, column_metadata_of rows)"
    using assms(1,3,6) by (simp add: sql_executor_attempt_def limit_rows_over)
  have c: "database_executor_attempt parse_one to_sql float_str dex explain_cost (fetch_full 0) sql max_rows
             = Inr (map dict_of rows, column_metadata_of rows)"
    using assms(2,4,5,7,8) by (simp add: database_executor_attempt_def limit_rows_exact)
  have d: "database_executor_attempt parse_one to_sql float_str dex explain_cost (fetch_more 0) sql max_rows
             = Inr (map dict_of rows, column_metadata_of rows)"
    using assms(2,4,6,7,8) by (simp add: database_executor_attempt_def limit_rows_over)
  show ?thesis
    unfolding sql_executor_execute_query_def database_executor_execute_query_def
    using a b c d by (simp add: retry_first)
qed

theorem execute_query_row_limit_witness:
  "pool_initialized sample_sql_executor \<and> db_pool_initialized sample_database_executor
   \<and> int (length sample_rows) = limits_max_rows sample_sql_executor
   \<and> final_sql_of sample_parse_one sample_to_sql sample_database_executor
        ''SELECT id FROM orders'' = Inr orders_rendered
   \<and> explain_gate sample_float_str sample_database_executor no_explain_cost orders_rendered = None
   \<and> sql_executor_execute_query sample_sql_executor fetch_over orders_rendered
        = Inr (map dict_of sample_rows, column_metadata_of sample_rows)
   \<and> database_executor_execute_query sample_parse_one sample_to_sql sample_float_str
        sample_database_executor no_explain_cost fetch_exact ''SELECT id FROM orders'' 2
        = Inr (map dict_of sample_rows, column_metadata_of sample_rows)
   \<and> database_executor_execute_query sample_parse_one sample_to_sql sample_float_str
        sample_database_executor no_explain_cost fetch_over ''SELECT id FROM orders'' 2
        = Inr (map dict_of sample_rows, column_metadata_of sample_rows)"
proof -
  have h1: "pool_initialized sample_sql_executor" by (simp add: sample_sql_executor_def)
  have h2: "db_pool_initialized sample_database_executor"
    by (simp add: sample_database_executor_def)
  have h3: "int (length sample_rows) = limits_max_rows sample_sql_executor"
    by (simp add: sample_rows_def sample_sql_executor_def)
  have h4: "int (length sample_rows) = 2" by (simp add: sample_rows_def)
  have h5: "fetch_exact 0 orders_rendered = Inr sample_rows" by (simp add: fetch_exact_def)
  have h6: "fetch_over 0 orders_rendered = Inr (sample_rows @ [[(''id'', VInt 3)]])"
    by (simp add: fetch_over_def)
  have h7: "final_sql_of sample_parse_one sample_to_sql sample_database_executor
              ''SELECT id FROM orders'' = Inr orders_rendered"
    by code_simp
  have h8: "explain_gate sample_float_str sample_database_executor no_explain_cost orders_rendered = None"
    by (simp add: explain_gate_def sample_database_executor_def secret_policy_def)
  show ?thesis
    using h1 h2 h3 h7 h8
      execute_query_row_limit
        [where fetch_full = fetch_exact and fetch_more = fetch_over and explain_cost = no_explain_cost,
         OF h1 h2 h3 h4 h5 h6 h7 h8]
    by simp
qed

section \<open>Formatter: fallback to the input\<close>

text \<open>
  Claim C9. \<^verbatim>\<open>format_sql\<close> never lets an exception out, and when the input does not
  parse, or anything in the formatting raises, it returns the input string unchanged.
\<close>

theorem format_sql_total_fallback:
  "\<not> isl (format_sql parse_one to_sql sql) \<and>
   (isl (parse_one sql) \<or> isl (format_sql_body parse_one to_sql sql) \<longrightarrow>
      format_sql parse_one to_sql sql = Inr sql)"
  by (auto simp: format_sql_def format_sql_body_def split: sum.splits)

theorem format_sql_total_fallback_witness:
  "isl (sample_parse_one ''SELECT ('') \<and>
   format_sql sample_parse_one sample_to_sql ''SELECT ('' = Inr ''SELECT (''"
proof -
  have h: "isl (sample_parse_one ''SELECT ('')" by (simp add: sample_parse_one_def quoted_call_sql_def)
  show ?thesis
    using h format_sql_total_fallback [of sample_parse_one sample_to_sql "''SELECT (''"]
    by blast
qed


section \<open>Validator: an accepted statement is a SELECT without dangerous functions\<close>

lemma children_snd: "snd ` set (children p i as) = snd ` set as"
proof (induction as arbitrary: i)
  case Nil
  then show ?case by simp
next
  case (Cons a as)
  obtain k e where a: "a = (k, e)" by (cases a)
  show ?case using Cons [of "Suc i"] by (simp add: a)
qed

lemma bfs_contains_queue: "set q \<subseteq> set (bfs q)"
proof (induction q rule: bfs.induct)
  case 1
  show ?case by simp
next
  case (2 p k as queue)
  then show ?case by auto
qed

lemma bfs_closed:
  "(p, n) \<in> set (bfs q) \<Longrightarrow> (key, c) \<in> set (args n) \<Longrightarrow> c \<in> snd ` set (bfs q)"
proof (induction q arbitrary: p n rule: bfs.induct)
  case 1
  then show ?case by simp
next
  case (2 p' k as queue)
  show ?case
  proof (cases "(p, n) = (p', Expr k as)")
    case True
    then have "c \<in> snd ` set as" using 2(3) by force
    then have "c \<in> snd ` set (children p' 0 as)" by (simp add: children_snd)
    then have "c \<in> snd ` set (queue @ children p' 0 as)" by auto
    then have "c \<in> snd ` set (bfs (queue @ children p' 0 as))"
      using bfs_contains_queue by blast
    then show ?thesis by simp
  next
    case False
    then have "(p, n) \<in> set (bfs (queue @ children p' 0 as))" using 2(2) by auto
    from 2(1) [OF this 2(3)] show ?thesis by simp
  qed
qed

lemma walk_complete: "n \<in> subnodes e \<Longrightarrow> n \<in> snd ` set (walk e)"
proof (induction rule: subnodes.induct)
  case root
  have "([], e) \<in> set (bfs [([], e)])" using bfs_contains_queue [of "[([], e)]"] by simp
  then show ?case unfolding walk_def by force
next
  case (child n key c)
  then obtain p where "(p, n) \<in> set (walk e)" by auto
  then show ?case unfolding walk_def using bfs_closed child.hyps(2) by blast
qed

text \<open>
  What an accepted statement is sure to have: it parsed, its root is a SELECT, and no
  function node anywhere in the tree has the text the check reads, \<open>func_name\<close>, in the
  dangerous-function set.
\<close>

lemma validate_sql_ok_checked_text:
  assumes "fst (validate_sql parse_one sql)"
  shows "\<exists>parsed. parse_one sql = Inr parsed \<and> is_select parsed \<and>
           (\<forall>n \<in> subnodes parsed. is_func n \<longrightarrow> func_name n \<notin> set dangerous_function_names)"
proof -
  obtain parsed where P: "parse_one sql = Inr parsed"
    using assms by (cases "parse_one sql") (auto simp: validate_sql_def split: py_error.splits)
  have sel: "is_select parsed" and dang: "check_dangerous_functions parsed = []"
    using assms P by (auto simp: validate_sql_def split: if_splits)
  have "func_name n \<notin> set dangerous_function_names"
    if n: "n \<in> subnodes parsed" and f: "is_func n" for n
  proof
    assume d: "func_name n \<in> set dangerous_function_names"
    then have ne: "func_name n \<noteq> []" by (auto simp: dangerous_function_names_def)
    obtain p where "(p, n) \<in> set (walk parsed)" using walk_complete [OF n] by auto
    then have "(p, n) \<in> set (find_all is_func parsed)" using f by (simp add: find_all_def)
    then have "(p, n) \<in> set (filter (\<lambda>(p, node). func_name node \<noteq> [] \<and>
                   func_name node \<in> set dangerous_function_names) (find_all is_func parsed))"
      using d ne by simp
    then have "filter (\<lambda>(p, node). func_name node \<noteq> [] \<and>
                   func_name node \<in> set dangerous_function_names) (find_all is_func parsed) \<noteq> []"
      by (metis (no_types, lifting) empty_iff empty_set)
    then show False using dang by (simp add: check_dangerous_functions_def)
  qed
  then show ?thesis using P sel by blast
qed

text \<open>
  Claim C2 at \<^verbatim>\<open>SELECT "pg_read_file"('x')\<close>. The tree has one function node, a call of
  \<^verbatim>\<open>pg_read_file\<close>, a member of the dangerous-function set. The check compares
  \<^verbatim>\<open>str(node.this).lower()\<close>, which for the quoted name is the name with its double
  quotes and is in no member of the set, so \<^verbatim>\<open>validate_sql\<close> returns ok.
\<close>

theorem validate_sql_accepts_quoted_dangerous:
  "sample_parse_one quoted_call_sql = Inr quoted_call_tree
   \<and> validate_sql sample_parse_one quoted_call_sql = (True, None)
   \<and> map (bare_name \<circ> snd) (find_all is_func quoted_call_tree) = [''pg_read_file'']
   \<and> lower ''pg_read_file'' \<in> set (map lower dangerous_function_names)"
  by code_simp

section \<open>Rewriter: denials, schema qualifiers and row filters\<close>

text \<open>
  Claim C3, as stated, fails when the statement does not parse: the rewriter answers
  not valid, and both lists are empty.
\<close>

theorem rewrite_parse_failure_empty_lists:
  "\<not> is_valid (rewrite_and_validate sample_parse_one sample_to_sql orders_policy ''SELECT ('')
   \<and> res_blocked_tables
        (rewrite_and_validate sample_parse_one sample_to_sql orders_policy ''SELECT ('') @
      res_blocked_columns
        (rewrite_and_validate sample_parse_one sample_to_sql orders_policy ''SELECT ('') = []"
  by code_simp

text \<open>
  Claim C3, amended. The rewriter answers not valid exactly when one of its two lists
  is non-empty or an exception was raised inside it (the statement does not parse, or
  the rewritten tree cannot be rendered); in the second case both lists are empty.
\<close>

theorem rewrite_denial_iff:
  "(\<not> is_valid (rewrite_and_validate parse_one to_sql P sql)) =
     (res_blocked_tables (rewrite_and_validate parse_one to_sql P sql) @
        res_blocked_columns (rewrite_and_validate parse_one to_sql P sql) \<noteq> []
      \<or> isl (rewrite_body parse_one to_sql P sql))
   \<and> (isl (rewrite_body parse_one to_sql P sql) \<longrightarrow>
        res_blocked_tables (rewrite_and_validate parse_one to_sql P sql) @
          res_blocked_columns (rewrite_and_validate parse_one to_sql P sql) = [])"
proof (cases "parse_one sql")
  case (Inl e)
  then show ?thesis by (simp add: rewrite_and_validate_def rewrite_body_def)
next
  case (Inr parsed)
  show ?thesis
  proof (cases "to_sql (fst (table_loop P parse_one parsed))")
    case (Inl e)
    then show ?thesis using \<open>parse_one sql = Inr parsed\<close>
      by (simp add: rewrite_and_validate_def rewrite_body_def Let_def)
  next
    case (Inr rendered)
    then show ?thesis using \<open>parse_one sql = Inr parsed\<close>
      by (simp add: rewrite_and_validate_def rewrite_body_def Let_def)
  qed
qed

theorem rewrite_denial_iff_witness:
  "isl (rewrite_body sample_parse_one sample_to_sql secret_policy ''SELECT ('') \<and>
   \<not> is_valid (rewrite_and_validate sample_parse_one sample_to_sql secret_policy ''SELECT ('') \<and>
   res_blocked_tables
       (rewrite_and_validate sample_parse_one sample_to_sql secret_policy ''SELECT ('') @
     res_blocked_columns
       (rewrite_and_validate sample_parse_one sample_to_sql secret_policy ''SELECT ('') = []"
proof -
  have h: "isl (rewrite_body sample_parse_one sample_to_sql secret_policy ''SELECT ('')"
    by (simp add: rewrite_body_def sample_parse_one_def quoted_call_sql_def)
  show ?thesis
    using h rewrite_denial_iff [of sample_parse_one sample_to_sql secret_policy "''SELECT (''"]
    by simp
qed

text \<open>
  Claim C1 at \<^verbatim>\<open>SELECT * FROM secret.users\<close> under a policy that blocks
  \<^verbatim>\<open>secret.users\<close>. The rewriter takes the schema from the reference's catalog part,
  which is empty here, so it checks \<^verbatim>\<open>public.users\<close>: nothing is reported blocked and
  the statement is accepted, although the reference under its own schema is blocked.
\<close>

theorem rewrite_ignores_schema_qualifier:
  "sample_parse_one ''SELECT * FROM secret.users'' = Inr secret_tree
   \<and> is_table_blocked secret_policy ''secret'' ''users''
   \<and> res_blocked_tables (rewrite_and_validate sample_parse_one sample_to_sql secret_policy
        ''SELECT * FROM secret.users'') = []
   \<and> is_valid (rewrite_and_validate sample_parse_one sample_to_sql secret_policy
        ''SELECT * FROM secret.users'')"
  by code_simp

text \<open>
  Claim C4 at \<^verbatim>\<open>SELECT id FROM (SELECT id FROM orders) AS x\<close> with the row filter
  \<^verbatim>\<open>user_id = current_user_id()\<close> on \<^verbatim>\<open>orders\<close>. The filter becomes the WHERE of the
  outer SELECT; the inner SELECT, the innermost one containing the reference, is left
  as it was, without a WHERE.
\<close>

theorem row_filter_lands_on_outermost_select:
  "sample_parse_one ''SELECT id FROM (SELECT id FROM orders) AS x'' = Inr nested_tree
   \<and> table_loop orders_policy sample_parse_one nested_tree =
       (Expr Select
          [(''expressions'', Expr (Column [] ''id'') []),
           (''from'', Expr From
              [(''this'', Expr Subquery
                 [(''this'', orders_tree), (''alias'', Expr (Other ''TableAlias'') [])])]),
           (''where'', Expr Where [(''this'', user_condition)])], [])
   \<and> map_of (args orders_tree) ''where'' = None"
  by code_simp

end
